theory Spec2Isabelle
  imports Main "HOL-Library.Word"
begin

unbundle bit_operations_syntax

section \<open>Data model of the ARP module (src/netif/etharp.c)\<close>

type_synonym u8_t = "8 word"
type_synonym u16_t = "16 word"
type_synonym u32_t = "32 word"

text \<open>
  \<^verbatim>\<open>struct eth_addr { u8_t addr[6]; }\<close>: six octets. \<open>addr_get a k\<close> reads \<open>a.addr[k]\<close>
  and \<open>addr_set a k v\<close> writes it. The code indexes with \<open>k < netif->hwaddr_len\<close>. The
  model follows the code for a length of at most 6: beyond it the C loops leave the array
  (and write into whatever follows it), which the model does not follow; here such a read
  gives 0 and such a write changes nothing.
\<close>

datatype eth_addr = Eth_addr u8_t u8_t u8_t u8_t u8_t u8_t

fun addr_get :: "eth_addr \<Rightarrow> nat \<Rightarrow> u8_t" where
  "addr_get (Eth_addr a0 a1 a2 a3 a4 a5) k =
     (if k = 0 then a0 else if k = 1 then a1 else if k = 2 then a2
      else if k = 3 then a3 else if k = 4 then a4 else if k = 5 then a5 else 0)"

fun addr_set :: "eth_addr \<Rightarrow> nat \<Rightarrow> u8_t \<Rightarrow> eth_addr" where
  "addr_set (Eth_addr a0 a1 a2 a3 a4 a5) k v =
     (if k = 0 then Eth_addr v a1 a2 a3 a4 a5
      else if k = 1 then Eth_addr a0 v a2 a3 a4 a5
      else if k = 2 then Eth_addr a0 a1 v a3 a4 a5
      else if k = 3 then Eth_addr a0 a1 a2 v a4 a5
      else if k = 4 then Eth_addr a0 a1 a2 a3 v a5
      else if k = 5 then Eth_addr a0 a1 a2 a3 a4 v
      else Eth_addr a0 a1 a2 a3 a4 a5)"

text \<open>
  The loop \<^verbatim>\<open>for (k = 0; k < n; ++k) d.addr[k] = s.addr[k];\<close> that the module uses for every
  hardware-address copy, with \<open>n = netif->hwaddr_len\<close>.
\<close>

definition copy_addr :: "u8_t \<Rightarrow> eth_addr \<Rightarrow> eth_addr \<Rightarrow> eth_addr" where
  "copy_addr n s d = fold (\<lambda>k a. addr_set a k (addr_get s k)) [0..<unat n] d"

text \<open>The loop \<^verbatim>\<open>for (k = 0; k < n; ++k) d.addr[k] = v;\<close> (a constant octet).\<close>

definition fill_addr :: "u8_t \<Rightarrow> u8_t \<Rightarrow> eth_addr \<Rightarrow> eth_addr" where
  "fill_addr n v d = fold (\<lambda>k a. addr_set a k v) [0..<unat n] d"

definition ethbroadcast :: eth_addr where
  "ethbroadcast = Eth_addr 0xff 0xff 0xff 0xff 0xff 0xff"

datatype etharp_state =
  ETHARP_STATE_EMPTY | ETHARP_STATE_PENDING | ETHARP_STATE_STABLE | ETHARP_STATE_EXPIRED

datatype err_t = ERR_OK | ERR_MEM | ERR_BUF | ERR_RTE | ERR_IF

text \<open>
  Constants of the file, and those of headers that are not under src/ (netif/etharp.h,
  lwip/opt.h): \<open>ETHTYPE_ARP\<close>, \<open>ETHTYPE_IP\<close> and the size of the packed
  \<^verbatim>\<open>struct etharp_hdr\<close> (14 octets of Ethernet header and 28 of ARP, as section 6 of the
  specification lays the frame out).
\<close>

definition ARP_MAXAGE :: u8_t where "ARP_MAXAGE = 120"
definition ARP_MAXPENDING :: u8_t where "ARP_MAXPENDING = 1"
definition HWTYPE_ETHERNET :: u16_t where "HWTYPE_ETHERNET = 1"
definition ARP_REQUEST :: u16_t where "ARP_REQUEST = 1"
definition ARP_INSERT_FLAG :: u8_t where "ARP_INSERT_FLAG = 1"
definition ETHTYPE_ARP :: u16_t where "ETHTYPE_ARP = 0x0806"
definition ETHTYPE_IP :: u16_t where "ETHTYPE_IP = 0x0800"
definition sizeof_eth_hdr :: u16_t where "sizeof_eth_hdr = 14"
definition sizeof_etharp_hdr :: u16_t where "sizeof_etharp_hdr = 42"
definition sizeof_ip_addr :: u16_t where "sizeof_ip_addr = 4"

text \<open>
  Modelled from the spec: \<open>htons\<close> and \<open>ntohs\<close> (lwip/inet.h) are not under src/. Section 6
  of the specification puts every multi-byte integer on the wire big-endian; on the
  little-endian host of this port the conversion swaps the two octets of a 16-bit value, as
  lwIP's own \<^verbatim>\<open>((n & 0xff) << 8) | ((n & 0xff00) >> 8)\<close> does. A header field holds the
  value as stored; \<open>ntohs\<close> of it is the number the frame carries.
\<close>

definition htons :: "u16_t \<Rightarrow> u16_t" where
  "htons n = push_bit 8 (n AND 0xff) OR drop_bit 8 (n AND 0xff00)"

definition ntohs :: "u16_t \<Rightarrow> u16_t" where
  "ntohs n = htons n"

record eth_hdr =
  dest :: eth_addr
  src :: eth_addr
  type :: u16_t

text \<open>
  \<^verbatim>\<open>struct etharp_hdr\<close>: the Ethernet header followed by the ARP fields. An IPv4 address is
  a \<open>u32_t\<close> holding the number \<open>a.b.c.d\<close> reads as (\<open>a\<close> the most significant octet);
  the code only copies and compares addresses, and takes octets with \<open>ip4_addr2..4\<close>.
\<close>

record etharp_hdr =
  ethhdr :: eth_hdr
  hwtype :: u16_t
  proto :: u16_t
  hwlen_protolen :: u16_t
  opcode :: u16_t
  shwaddr :: eth_addr
  sipaddr :: u32_t
  dhwaddr :: eth_addr
  dipaddr :: u32_t

text \<open>
  A packet buffer: \<open>ref\<close> is the address of the \<^verbatim>\<open>struct pbuf\<close> (its identity),
  \<open>payload\<close> the first octets of its payload seen through \<^verbatim>\<open>struct etharp_hdr\<close>, as the
  code casts \<^verbatim>\<open>p->payload\<close>. For an IP datagram only the \<open>ethhdr\<close> part is written.
\<close>

record pbuf =
  ref :: nat
  tot_len :: u16_t
  payload :: etharp_hdr

definition ARPH_HWLEN :: "etharp_hdr \<Rightarrow> u16_t" where
  "ARPH_HWLEN hdr = drop_bit 8 (ntohs (hwlen_protolen hdr))"

definition ARPH_PROTOLEN :: "etharp_hdr \<Rightarrow> u16_t" where
  "ARPH_PROTOLEN hdr = ntohs (hwlen_protolen hdr) AND 0xff"

definition ARPH_HWLEN_SET :: "etharp_hdr \<Rightarrow> u16_t \<Rightarrow> etharp_hdr" where
  "ARPH_HWLEN_SET hdr len = hdr\<lparr>hwlen_protolen := htons (ARPH_PROTOLEN hdr OR push_bit 8 len)\<rparr>"

definition ARPH_PROTOLEN_SET :: "etharp_hdr \<Rightarrow> u16_t \<Rightarrow> etharp_hdr" where
  "ARPH_PROTOLEN_SET hdr len = hdr\<lparr>hwlen_protolen := htons (len OR push_bit 8 (ARPH_HWLEN hdr))\<rparr>"

text \<open>
  \<^verbatim>\<open>struct etharp_entry\<close>. The field \<^verbatim>\<open>struct pbuf *p\<close>, the queue of packets waiting on
  the entry, is \<open>p_queue\<close>: the list of the queued packets from the head, \<open>[]\<close> for
  \<open>NULL\<close>. \<open>ctime\<close> is the 8-bit age.
\<close>

record etharp_entry =
  ipaddr :: u32_t
  ethaddr :: eth_addr
  state :: etharp_state
  p_queue :: "pbuf list"
  ctime :: u8_t

text \<open>
  \<^verbatim>\<open>struct netif\<close>, the fields the module reads. \<open>linkoutput\<close> gives the \<open>err_t\<close> the
  driver returns for a frame; that the driver was called is recorded as an event.
\<close>

record netif =
  ip_addr :: u32_t
  netmask :: u32_t
  gw :: u32_t
  hwaddr :: eth_addr
  hwaddr_len :: u8_t
  linkoutput :: "pbuf \<Rightarrow> err_t"

text \<open>
  The calls that leave the module: a frame handed to \<open>netif->linkoutput\<close> (with its
  contents at that moment) and a buffer released by \<open>pbuf_free\<close> (by its address).
\<close>

datatype event = LinkOutput pbuf | PbufFree nat

text \<open>
  The module's state: the static array \<open>arp_table\<close> (its length is \<open>ARP_TABLE_SIZE\<close>, a
  constant of lwip/opt.h that is not under src/; the \<open>s8_t\<close> indices of the code hold it
  up to 127) and the calls made so far, oldest first.
\<close>

record world =
  arp_table :: "etharp_entry list"
  events :: "event list"

text \<open>
  Modelled from the spec: \<open>pbuf_free\<close> (lwip/pbuf.c) is not under src/. The specification's
  buffer facade releases a buffer; called on the head of a queue it releases all queued
  buffers (sections 4.1 and 4.3). The argument is the chain reachable from the pointer.
\<close>

definition pbuf_free :: "pbuf list \<Rightarrow> world \<Rightarrow> world" where
  "pbuf_free chain w = w\<lparr>events := events w @ map (\<lambda>b. PbufFree (ref b)) chain\<rparr>"

definition call_linkoutput :: "pbuf \<Rightarrow> world \<Rightarrow> world" where
  "call_linkoutput b w = w\<lparr>events := events w @ [LinkOutput b]\<rparr>"

section \<open>etharp_init and etharp_tmr\<close>

text \<open>
  The static array before \<open>etharp_init\<close>: C zero-initialises it. \<open>etharp_init\<close> then sets
  \<open>state\<close>, \<open>p\<close> and \<open>ctime\<close> of every slot.
\<close>

definition zero_entry :: etharp_entry where
  "zero_entry = \<lparr>ipaddr = 0, ethaddr = Eth_addr 0 0 0 0 0 0, state = ETHARP_STATE_EMPTY,
                 p_queue = [], ctime = 0\<rparr>"

definition etharp_init_slot :: "nat \<Rightarrow> world \<Rightarrow> world" where
  "etharp_init_slot i w =
     w\<lparr>arp_table := (arp_table w)[i := (arp_table w ! i)\<lparr>state := ETHARP_STATE_EMPTY,
                                                         p_queue := [], ctime := 0\<rparr>]\<rparr>"

definition etharp_init :: "world \<Rightarrow> world" where
  "etharp_init w = fold etharp_init_slot [0..<length (arp_table w)] w"

definition initial_world :: "nat \<Rightarrow> world" where
  "initial_world n = etharp_init \<lparr>arp_table = replicate n zero_entry, events = []\<rparr>"

text \<open>
  The body of the loop of \<open>etharp_tmr\<close> for one slot: \<^verbatim>\<open>arp_table[i].ctime++\<close> on a
  \<open>u8_t\<close> (the word addition wraps), the two expiry tests, then the clean-up of an entry
  in state \<open>EXPIRED\<close>. The result is the slot and the queue passed to \<open>pbuf_free\<close>
  (\<open>[]\<close> when no call is made).
\<close>

definition tmr_expire :: "etharp_entry \<Rightarrow> etharp_entry" where
  "tmr_expire e =
     (if state e = ETHARP_STATE_STABLE \<and> ctime e \<ge> ARP_MAXAGE
      then e\<lparr>state := ETHARP_STATE_EXPIRED\<rparr>
      else if state e = ETHARP_STATE_PENDING \<and> ctime e \<ge> ARP_MAXPENDING
      then e\<lparr>state := ETHARP_STATE_EXPIRED\<rparr>
      else e)"

definition tmr_entry :: "etharp_entry \<Rightarrow> etharp_entry \<times> pbuf list" where
  "tmr_entry e =
     (let e2 = tmr_expire (e\<lparr>ctime := ctime e + 1\<rparr>)
      in if state e2 = ETHARP_STATE_EXPIRED
         then (e2\<lparr>p_queue := [], state := ETHARP_STATE_EMPTY\<rparr>, p_queue e2)
         else (e2, []))"

definition etharp_tmr_slot :: "nat \<Rightarrow> world \<Rightarrow> world" where
  "etharp_tmr_slot i w =
     (let (e', freed) = tmr_entry (arp_table w ! i)
      in pbuf_free freed (w\<lparr>arp_table := (arp_table w)[i := e']\<rparr>))"

definition etharp_tmr :: "world \<Rightarrow> world" where
  "etharp_tmr w = fold etharp_tmr_slot [0..<length (arp_table w)] w"

section \<open>find_arp_entry\<close>

text \<open>
  The scan of \<open>find_arp_entry\<close> from slot \<open>i\<close>, with the loop variables \<open>j\<close> (the oldest
  stable slot so far, \<open>ARP_TABLE_SIZE\<close> when none) and \<open>maxtime\<close>. \<open>Inl i\<close> is the
  \<^verbatim>\<open>return i\<close> inside the loop at an empty slot; \<open>Inr j\<close> is the end of the loop.
\<close>

function find_arp_entry_scan :: "etharp_entry list \<Rightarrow> nat \<Rightarrow> nat \<Rightarrow> u8_t \<Rightarrow> nat + nat" where
  "find_arp_entry_scan tbl i j maxtime =
     (if i < length tbl then
        (if state (tbl ! i) = ETHARP_STATE_EMPTY then Inl i
         else if state (tbl ! i) = ETHARP_STATE_STABLE then
           (if ctime (tbl ! i) \<ge> maxtime
            then find_arp_entry_scan tbl (Suc i) i (ctime (tbl ! i))
            else find_arp_entry_scan tbl (Suc i) j maxtime)
         else find_arp_entry_scan tbl (Suc i) j maxtime)
      else Inr j)"
  by pat_completeness auto
termination
  by (relation "measure (\<lambda>(tbl, i, j, maxtime). length tbl - i)") auto

text \<open>
  \<open>find_arp_entry\<close>: the slot returned, or \<open>ERR_MEM\<close>. After the loop \<open>i = j\<close>; \<open>ERR_MEM\<close>
  when that is \<open>ARP_TABLE_SIZE\<close>; a stable slot has its queue freed and is set empty.
\<close>

definition find_arp_entry :: "world \<Rightarrow> (err_t + nat) \<times> world" where
  "find_arp_entry w =
     (case find_arp_entry_scan (arp_table w) 0 (length (arp_table w)) 0 of
        Inl i \<Rightarrow> (Inr i, w)
      | Inr j \<Rightarrow>
          if j = length (arp_table w) then (Inl ERR_MEM, w)
          else if state (arp_table w ! j) = ETHARP_STATE_STABLE then
            (Inr j, (pbuf_free (p_queue (arp_table w ! j)) w)
                      \<lparr>arp_table := (arp_table w)[j := (arp_table w ! j)
                          \<lparr>p_queue := [], state := ETHARP_STATE_EMPTY\<rparr>]\<rparr>)
          else (Inr j, w))"

section \<open>update_arp_entry\<close>

text \<open>
  The search that \<open>update_arp_entry\<close> and \<open>etharp_query\<close> both make: the first slot from
  \<open>i\<close> that is not empty, holds the address and is pending or stable; the result is
  \<open>ARP_TABLE_SIZE\<close> when the loop runs to its end.
\<close>

function table_search :: "u32_t \<Rightarrow> etharp_entry list \<Rightarrow> nat \<Rightarrow> nat" where
  "table_search ip tbl i =
     (if i < length tbl then
        (if state (tbl ! i) \<noteq> ETHARP_STATE_EMPTY \<and> ip = ipaddr (tbl ! i) \<and>
            (state (tbl ! i) = ETHARP_STATE_PENDING \<or> state (tbl ! i) = ETHARP_STATE_STABLE)
         then i else table_search ip tbl (Suc i))
      else i)"
  by pat_completeness auto
termination
  by (relation "measure (\<lambda>(ip, tbl, i). length tbl - i)") auto

text \<open>
  Filling the Ethernet header of a buffer in place: the loop over \<open>k < netif->hwaddr_len\<close>
  that sets \<open>dest.addr[k]\<close> and \<open>src.addr[k]\<close>, then \<open>type = htons(t)\<close>.
\<close>

definition fill_ethhdr :: "u8_t \<Rightarrow> eth_addr \<Rightarrow> eth_addr \<Rightarrow> u16_t \<Rightarrow> pbuf \<Rightarrow> pbuf" where
  "fill_ethhdr n d s t b =
     b\<lparr>payload := (payload b)\<lparr>ethhdr :=
         \<lparr>dest = copy_addr n d (dest (ethhdr (payload b))),
          src = copy_addr n s (src (ethhdr (payload b))),
          type = htons t\<rparr>\<rparr>\<rparr>"

text \<open>
  Modelled from the spec: \<open>pbuf_dequeue\<close> (lwip/pbuf.c) is not under src/; the facade's
  \<open>tail_dequeue(head)\<close> gives the rest of the queue and leaves the head a single packet.

  The loop \<^verbatim>\<open>while (arp_table[i].p != NULL)\<close> of \<open>update_arp_entry\<close> over the queue: each
  packet has its header filled, is sent and is freed; the slot's \<open>p\<close> is \<open>NULL\<close> at the
  end.
\<close>

fun send_queued :: "netif \<Rightarrow> eth_addr \<Rightarrow> pbuf list \<Rightarrow> world \<Rightarrow> world" where
  "send_queued netif mac [] w = w"
| "send_queued netif mac (b # rest) w =
     (let b' = fill_ethhdr (hwaddr_len netif) mac (hwaddr netif) ETHTYPE_IP b
      in send_queued netif mac rest (pbuf_free [b'] (call_linkoutput b' w)))"

definition update_arp_entry :: "netif \<Rightarrow> u32_t \<Rightarrow> eth_addr \<Rightarrow> u8_t \<Rightarrow> world \<Rightarrow> world" where
  "update_arp_entry netif ip mac flags w =
     (if ip = 0 then w
      else
        let tbl = arp_table w; i = table_search ip tbl 0
        in if i < length tbl then
             send_queued netif mac (p_queue (tbl ! i))
               (w\<lparr>arp_table := tbl[i := (tbl ! i)
                    \<lparr>state := ETHARP_STATE_STABLE,
                     ethaddr := copy_addr (hwaddr_len netif) mac (ethaddr (tbl ! i)),
                     ctime := 0, p_queue := []\<rparr>]\<rparr>)
           else if flags AND ARP_INSERT_FLAG \<noteq> 0 then
             (case find_arp_entry w of
                (Inl err, w') \<Rightarrow> w'
              | (Inr k, w') \<Rightarrow>
                  w'\<lparr>arp_table := (arp_table w')[k := (arp_table w' ! k)
                       \<lparr>ipaddr := ip,
                        ethaddr := copy_addr (hwaddr_len netif) mac (ethaddr (arp_table w' ! k)),
                        ctime := 0, state := ETHARP_STATE_STABLE, p_queue := []\<rparr>]\<rparr>)
           else w)"

section \<open>etharp_query\<close>

text \<open>
  The buffer allocator (lwip/pbuf.c) is not under src/: what \<open>pbuf_alloc\<close>, \<open>pbuf_take\<close>
  and \<open>pbuf_header\<close> return is a parameter of the model (\<open>None\<close> for \<open>NULL\<close> or failure).
\<close>

record pbuf_ops =
  pbuf_alloc :: "u16_t \<Rightarrow> pbuf option"
  pbuf_take :: "pbuf \<Rightarrow> pbuf option"
  pbuf_header :: "pbuf \<Rightarrow> u16_t \<Rightarrow> pbuf option"

text \<open>
  Modelled from the spec: \<open>pbuf_queue\<close> (lwip/pbuf.c) is not under src/; the facade's
  \<open>tail_enqueue(head, extra)\<close> puts a buffer at the tail of an existing buffer's queue. The
  call \<^verbatim>\<open>pbuf_queue(arp_table[i].p, p)\<close> passes the slot's pointer by value and assigns
  nothing, so a slot whose \<open>p\<close> is \<open>NULL\<close> still has \<open>NULL\<close> after it.
\<close>

definition pbuf_queue :: "pbuf list \<Rightarrow> pbuf \<Rightarrow> pbuf list" where
  "pbuf_queue head n = (if head = [] then [] else head @ [n])"

text \<open>
  Step 1 of \<open>etharp_query\<close>: the ARP request written into the allocated buffer. \<open>srcaddr\<close>
  is read at lines 654 and 671 of the source, where no declaration of it is in scope (the
  only one is inside the later block for a stable entry); its value is a parameter.
\<close>

definition arp_request_hdr :: "eth_addr \<Rightarrow> netif \<Rightarrow> u32_t \<Rightarrow> etharp_hdr \<Rightarrow> etharp_hdr" where
  "arp_request_hdr srcaddr netif ip hdr0 =
     (let n = hwaddr_len netif;
          h1 = hdr0\<lparr>opcode := htons ARP_REQUEST\<rparr>;
          h2 = h1\<lparr>shwaddr := copy_addr n srcaddr (shwaddr h1),
                  dhwaddr := fill_addr n 0x00 (dhwaddr h1)\<rparr>;
          h3 = h2\<lparr>dipaddr := ip, sipaddr := ip_addr netif\<rparr>;
          h4 = ARPH_HWLEN_SET (h3\<lparr>hwtype := htons HWTYPE_ETHERNET\<rparr>) (ucast n);
          h5 = ARPH_PROTOLEN_SET (h4\<lparr>proto := htons ETHTYPE_IP\<rparr>) sizeof_ip_addr
      in h5\<lparr>ethhdr := \<lparr>dest = fill_addr n 0xff (dest (ethhdr h5)),
                        src = copy_addr n srcaddr (src (ethhdr h5)),
                        type = htons ETHTYPE_ARP\<rparr>\<rparr>)"

definition send_request :: "eth_addr \<Rightarrow> pbuf_ops \<Rightarrow> netif \<Rightarrow> u32_t \<Rightarrow> world \<Rightarrow> err_t \<times> world" where
  "send_request srcaddr mem netif ip w =
     (case pbuf_alloc mem sizeof_etharp_hdr of
        Some b \<Rightarrow>
          (let b' = b\<lparr>payload := arp_request_hdr srcaddr netif ip (payload b)\<rparr>
           in (linkoutput netif b', pbuf_free [b'] (call_linkoutput b' w)))
      | None \<Rightarrow> (ERR_MEM, w))"

text \<open>
  Step 2: the slot of the address, created as pending in the slot \<open>find_arp_entry\<close> gives
  when the search finds none. The three assignments of lines 714 to 716 are all that the
  creation writes. \<open>Inl ERR_MEM\<close> is the \<^verbatim>\<open>return ERR_MEM\<close> of line 711.
\<close>

definition locate_entry :: "u32_t \<Rightarrow> world \<Rightarrow> (err_t + nat) \<times> world" where
  "locate_entry ip w =
     (let i = table_search ip (arp_table w) 0
      in if i = length (arp_table w) then
           (case find_arp_entry w of
              (Inl err, w') \<Rightarrow> (Inl ERR_MEM, w')
            | (Inr k, w') \<Rightarrow>
                (Inr k, w'\<lparr>arp_table := (arp_table w')[k := (arp_table w' ! k)
                           \<lparr>state := ETHARP_STATE_PENDING, ipaddr := ip, p_queue := []\<rparr>]\<rparr>))
         else (Inr i, w))"

text \<open>
  Step 3: the packet, when one is given. The source has \<^verbatim>\<open>if (q != NULL)\<close> without its
  opening brace while the closing one is there; the model follows the closing brace and the
  indentation, so that both branches are under the test.
\<close>

definition handle_packet ::
  "pbuf_ops \<Rightarrow> netif \<Rightarrow> pbuf option \<Rightarrow> nat \<Rightarrow> err_t \<Rightarrow> world \<Rightarrow> err_t \<times> world" where
  "handle_packet mem netif q i result w =
     (case q of
        None \<Rightarrow> (result, w)
      | Some b \<Rightarrow>
          if state (arp_table w ! i) = ETHARP_STATE_STABLE then
            (let b' = fill_ethhdr (hwaddr_len netif) (ethaddr (arp_table w ! i))
                        (hwaddr netif) ETHTYPE_IP b
             in (linkoutput netif b', call_linkoutput b' w))
          else if state (arp_table w ! i) = ETHARP_STATE_PENDING then
            (case pbuf_take mem b of
               Some n \<Rightarrow>
                 (result, w\<lparr>arp_table := (arp_table w)[i := (arp_table w ! i)
                            \<lparr>p_queue := pbuf_queue (p_queue (arp_table w ! i)) n\<rparr>]\<rparr>)
             | None \<Rightarrow> (ERR_MEM, w))
          else (result, w))"

definition etharp_query ::
  "eth_addr \<Rightarrow> pbuf_ops \<Rightarrow> netif \<Rightarrow> u32_t \<Rightarrow> pbuf option \<Rightarrow> world \<Rightarrow> err_t \<times> world" where
  "etharp_query srcaddr mem netif ip q w =
     (case send_request srcaddr mem netif ip w of
        (result, w1) \<Rightarrow>
          (case locate_entry ip w1 of
             (Inl err, w2) \<Rightarrow> (err, w2)
           | (Inr i, w2) \<Rightarrow> handle_packet mem netif q i result w2))"

section \<open>etharp_arp_input\<close>



section \<open>etharp_output\<close>

text \<open>
  Modelled from the spec: the address tests of lwip/ip_addr.h are not under src/. Section
  4.4 and the glossary give them: any is 0.0.0.0; broadcast is 0.0.0.0, the limited
  broadcast 255.255.255.255 or the subnet-directed one; multicast is 224.0.0.0/4; two
  addresses are on one link when they agree under the netmask. \<open>ip4_addr2..4\<close> are the low
  three octets.
\<close>

definition ip_addr_isany :: "u32_t \<Rightarrow> bool" where
  "ip_addr_isany a = (a = 0)"

definition ip_addr_maskcmp :: "u32_t \<Rightarrow> u32_t \<Rightarrow> u32_t \<Rightarrow> bool" where
  "ip_addr_maskcmp a b m = (a AND m = b AND m)"

definition ip_addr_isbroadcast :: "u32_t \<Rightarrow> netif \<Rightarrow> bool" where
  "ip_addr_isbroadcast a netif =
     (a = 0xffffffff \<or> a = 0 \<or>
      (ip_addr_maskcmp a (ip_addr netif) (netmask netif) \<and>
       a AND NOT (netmask netif) = 0xffffffff AND NOT (netmask netif)))"

definition ip_addr_ismulticast :: "u32_t \<Rightarrow> bool" where
  "ip_addr_ismulticast a = (a AND 0xf0000000 = 0xe0000000)"

definition ip4_addr2 :: "u32_t \<Rightarrow> u8_t" where "ip4_addr2 a = ucast (drop_bit 16 a)"
definition ip4_addr3 :: "u32_t \<Rightarrow> u8_t" where "ip4_addr3 a = ucast (drop_bit 8 a)"
definition ip4_addr4 :: "u32_t \<Rightarrow> u8_t" where "ip4_addr4 a = ucast a"

text \<open>
  The end of \<open>etharp_output\<close> when \<open>dest != NULL\<close>: the header is filled, the frame sent,
  and control reaches the \<open>pbuf_free(q)\<close> of line 596.
\<close>

definition output_send :: "netif \<Rightarrow> eth_addr \<Rightarrow> pbuf \<Rightarrow> world \<Rightarrow> err_t \<times> world" where
  "output_send netif d b w =
     (let b' = fill_ethhdr (hwaddr_len netif) d (hwaddr netif) ETHTYPE_IP b
      in (linkoutput netif b', pbuf_free [b'] (call_linkoutput b' w)))"

definition etharp_output ::
  "eth_addr \<Rightarrow> pbuf_ops \<Rightarrow> netif \<Rightarrow> u32_t \<Rightarrow> pbuf \<Rightarrow> world \<Rightarrow> err_t \<times> world" where
  "etharp_output srcaddr mem netif ip q0 w =
     (case pbuf_header mem q0 sizeof_eth_hdr of
        None \<Rightarrow> (ERR_BUF, pbuf_free [q0] w)
      | Some b \<Rightarrow>
          if ip_addr_isany ip \<or> ip_addr_isbroadcast ip netif then
            output_send netif ethbroadcast b w
          else if ip_addr_ismulticast ip then
            output_send netif
              (Eth_addr 0x01 0x00 0x5e (ip4_addr2 ip AND 0x7f) (ip4_addr3 ip) (ip4_addr4 ip)) b w
          else if \<not> ip_addr_maskcmp ip (ip_addr netif) (netmask netif) \<and> gw netif = 0 then
            (ERR_RTE, pbuf_free [b] w)
          else
            (case etharp_query srcaddr mem netif
                    (if \<not> ip_addr_maskcmp ip (ip_addr netif) (netmask netif)
                     then gw netif else ip) (Some b) w of
               (result, w1) \<Rightarrow> (result, pbuf_free [b] w1)))"

section \<open>Configurations used in the examples\<close>

text \<open>
  The interface of the scenarios of section 8 of the specification: 10.0.0.2/24, hardware
  address 02:00:00:00:00:02, gateway 10.0.0.1, a driver that accepts every frame; an
  allocator that always succeeds (the request buffer at address 100, \<open>pbuf_take\<close> giving
  the buffer itself); an IP datagram at address 7.
\<close>

definition scenario_netif :: netif where
  "scenario_netif =
     \<lparr>ip_addr = 0x0A000002, netmask = 0xFFFFFF00, gw = 0x0A000001,
      hwaddr = Eth_addr 2 0 0 0 0 2, hwaddr_len = 6, linkoutput = (\<lambda>b. ERR_OK)\<rparr>"

definition blank_hdr :: etharp_hdr where
  "blank_hdr =
     \<lparr>ethhdr = \<lparr>dest = Eth_addr 0 0 0 0 0 0, src = Eth_addr 0 0 0 0 0 0, type = 0\<rparr>,
      hwtype = 0, proto = 0, hwlen_protolen = 0, opcode = 0,
      shwaddr = Eth_addr 0 0 0 0 0 0, sipaddr = 0,
      dhwaddr = Eth_addr 0 0 0 0 0 0, dipaddr = 0\<rparr>"

definition scenario_mem :: pbuf_ops where
  "scenario_mem =
     \<lparr>pbuf_alloc = (\<lambda>n. Some \<lparr>ref = 100, tot_len = n, payload = blank_hdr\<rparr>),
      pbuf_take = (\<lambda>b. Some b),
      pbuf_header = (\<lambda>b n. Some (b\<lparr>tot_len := tot_len b + n\<rparr>))\<rparr>"

definition ip_pkt :: pbuf where
  "ip_pkt = \<lparr>ref = 7, tot_len = 20, payload = blank_hdr\<rparr>"

text \<open>The cache of four slots after \<open>etharp_init\<close>.\<close>

definition empty_cache :: world where
  "empty_cache = initial_world 4"

text \<open>The events a call added: those of the world after it beyond those before it.\<close>

definition new_events :: "world \<Rightarrow> world \<Rightarrow> event list" where
  "new_events w w' = drop (length (events w)) (events w')"

text \<open>
  The cache after \<open>etharp_init\<close>, 255 calls of \<open>etharp_tmr\<close> and a query for
  10.0.0.6: slot 0 is pending with the age the empty slot had reached.
\<close>

definition aged_pending_world :: world where
  "aged_pending_world =
     snd (etharp_query (hwaddr scenario_netif) scenario_mem scenario_netif 0x0A000006 None
            ((etharp_tmr ^^ 255) empty_cache))"

text \<open>A pending slot of age 0 with one queued datagram.\<close>

definition queued_pending_world :: world where
  "queued_pending_world =
     \<lparr>arp_table = [\<lparr>ipaddr = 0x0A000006, ethaddr = Eth_addr 0 0 0 0 0 0,
                     state = ETHARP_STATE_PENDING, p_queue = [ip_pkt], ctime = 0\<rparr>],
      events = []\<rparr>"

text \<open>A stable slot of age 119, as in scenario 6 of the specification.\<close>

definition old_stable_world :: world where
  "old_stable_world =
     \<lparr>arp_table = [\<lparr>ipaddr = 0x0A000005, ethaddr = Eth_addr 2 0 0 0 0 5,
                     state = ETHARP_STATE_STABLE, p_queue = [], ctime = 119\<rparr>],
      events = []\<rparr>"

text \<open>Two stable slots of the same age, and a full cache with no empty slot.\<close>

definition tie_world :: world where
  "tie_world =
     \<lparr>arp_table =
        [\<lparr>ipaddr = 0x0A000005, ethaddr = Eth_addr 2 0 0 0 0 5, state = ETHARP_STATE_STABLE,
          p_queue = [], ctime = 5\<rparr>,
         \<lparr>ipaddr = 0x0A000007, ethaddr = Eth_addr 2 0 0 0 0 7, state = ETHARP_STATE_STABLE,
          p_queue = [], ctime = 5\<rparr>],
      events = []\<rparr>"

definition full_world :: world where
  "full_world =
     \<lparr>arp_table =
        [\<lparr>ipaddr = 0x0A000006, ethaddr = Eth_addr 0 0 0 0 0 0, state = ETHARP_STATE_PENDING,
          p_queue = [], ctime = 0\<rparr>,
         \<lparr>ipaddr = 0x0A000005, ethaddr = Eth_addr 2 0 0 0 0 5, state = ETHARP_STATE_STABLE,
          p_queue = [ip_pkt], ctime = 9\<rparr>,
         \<lparr>ipaddr = 0x0A000007, ethaddr = Eth_addr 2 0 0 0 0 7, state = ETHARP_STATE_STABLE,
          p_queue = [], ctime = 3\<rparr>],
      events = []\<rparr>"

text \<open>A pending slot for 10.0.0.6 with two queued datagrams, at addresses 7 and 8.\<close>

definition two_queued_world :: world where
  "two_queued_world =
     \<lparr>arp_table = [\<lparr>ipaddr = 0x0A000006, ethaddr = Eth_addr 0 0 0 0 0 0,
                     state = ETHARP_STATE_PENDING, p_queue = [ip_pkt, ip_pkt\<lparr>ref := 8\<rparr>],
                     ctime = 0\<rparr>],
      events = []\<rparr>"




text \<open>A stable slot of age 255.\<close>

definition wrapped_stable_world :: world where
  "wrapped_stable_world =
     \<lparr>arp_table = [\<lparr>ipaddr = 0x0A000005, ethaddr = Eth_addr 2 0 0 0 0 5,
                     state = ETHARP_STATE_STABLE, p_queue = [], ctime = 255\<rparr>],
      events = []\<rparr>"


text \<open>
  The scenario interface with a hardware-address length of 4, and a pending slot for
  10.0.0.6 that holds 09:09:09:09:09:09 and one queued datagram.
\<close>

definition short_netif :: netif where
  "short_netif = scenario_netif\<lparr>hwaddr_len := 4\<rparr>"

definition nines_pending_world :: world where
  "nines_pending_world =
     \<lparr>arp_table = [\<lparr>ipaddr = 0x0A000006, ethaddr = Eth_addr 9 9 9 9 9 9,
                     state = ETHARP_STATE_PENDING, p_queue = [ip_pkt], ctime = 0\<rparr>],
      events = []\<rparr>"

section \<open>The aging tick\<close>

lemma etharp_tmr_fold:
  "n \<le> length (arp_table w) \<Longrightarrow>
   arp_table (fold etharp_tmr_slot [0..<n] w) =
     map (\<lambda>e. fst (tmr_entry e)) (take n (arp_table w)) @ drop n (arp_table w) \<and>
   events (fold etharp_tmr_slot [0..<n] w) =
     events w @ concat (map (\<lambda>e. map (\<lambda>b. PbufFree (ref b)) (snd (tmr_entry e)))
                            (take n (arp_table w)))"
proof (induction n)
  case 0
  then show ?case by simp
next
  case (Suc n)
  then have n: "n < length (arp_table w)" by simp
  let ?w = "fold etharp_tmr_slot [0..<n] w"
  have IH:
    "arp_table ?w = map (\<lambda>e. fst (tmr_entry e)) (take n (arp_table w)) @ drop n (arp_table w)"
    "events ?w = events w @ concat (map (\<lambda>e. map (\<lambda>b. PbufFree (ref b)) (snd (tmr_entry e)))
                                       (take n (arp_table w)))"
    using Suc by simp_all
  have nth: "arp_table ?w ! n = arp_table w ! n"
    using n by (simp add: IH nth_append)
  have upd: "(arp_table ?w)[n := fst (tmr_entry (arp_table w ! n))] =
      map (\<lambda>e. fst (tmr_entry e)) (take (Suc n) (arp_table w)) @ drop (Suc n) (arp_table w)"
    using n by (simp add: IH list_update_append take_Suc_conv_app_nth upd_conv_take_nth_drop)
  have step: "fold etharp_tmr_slot [0..<Suc n] w = etharp_tmr_slot n ?w" by simp
  have slot:
    "arp_table (etharp_tmr_slot n ?w) = (arp_table ?w)[n := fst (tmr_entry (arp_table ?w ! n))]"
    "events (etharp_tmr_slot n ?w) =
       events ?w @ map (\<lambda>b. PbufFree (ref b)) (snd (tmr_entry (arp_table ?w ! n)))"
    by (simp_all add: etharp_tmr_slot_def pbuf_free_def split_def Let_def)
  show ?case
    unfolding step slot nth upd
    using n by (simp add: IH(2) take_Suc_conv_app_nth)
qed

lemma etharp_tmr_table:
  "arp_table (etharp_tmr w) = map (\<lambda>e. fst (tmr_entry e)) (arp_table w)"
  using etharp_tmr_fold [of "length (arp_table w)" w] by (simp add: etharp_tmr_def)

lemma etharp_tmr_events:
  "events (etharp_tmr w) =
     events w @ concat (map (\<lambda>e. map (\<lambda>b. PbufFree (ref b)) (snd (tmr_entry e))) (arp_table w))"
  using etharp_tmr_fold [of "length (arp_table w)" w] by (simp add: etharp_tmr_def)

lemma ctime_tmr_entry: "ctime (fst (tmr_entry e)) = ctime e + 1"
  by (simp add: tmr_entry_def tmr_expire_def Let_def)

lemma unat_ctime_succ:
  "unat ((c::u8_t) + 1) = (if unat c = 255 then 0 else unat c + 1)"
proof -
  have "unat c < 256" using unsigned_less [of c, where ?'a = nat] by simp
  then show ?thesis by (simp add: unat_word_ariths)
qed

lemma state_tmr_entry_not_expired: "state (fst (tmr_entry e)) \<noteq> ETHARP_STATE_EXPIRED"
  by (simp add: tmr_entry_def Let_def)

lemma tmr_entry_stable:
  assumes "state e = ETHARP_STATE_STABLE" "119 \<le> unat (ctime e)" "unat (ctime e) < 255"
  shows "tmr_entry e =
           (e\<lparr>ctime := ctime e + 1, p_queue := [], state := ETHARP_STATE_EMPTY\<rparr>, p_queue e)"
proof -
  have "unat (ctime e + 1) = unat (ctime e) + 1" using assms by (simp add: unat_ctime_succ)
  then have "ARP_MAXAGE \<le> ctime e + 1"
    using assms by (simp add: word_le_nat_alt ARP_MAXAGE_def)
  then show ?thesis using assms by (simp add: tmr_entry_def tmr_expire_def Let_def)
qed

lemma tmr_entry_pending:
  assumes "state e = ETHARP_STATE_PENDING" "unat (ctime e) < 255"
  shows "tmr_entry e =
           (e\<lparr>ctime := ctime e + 1, p_queue := [], state := ETHARP_STATE_EMPTY\<rparr>, p_queue e)"
proof -
  have "unat (ctime e + 1) = unat (ctime e) + 1" using assms by (simp add: unat_ctime_succ)
  then have "ARP_MAXPENDING \<le> ctime e + 1"
    using assms by (simp add: word_le_nat_alt ARP_MAXPENDING_def)
  then show ?thesis using assms by (simp add: tmr_entry_def tmr_expire_def Let_def)
qed

lemma tmr_freed_in_events:
  assumes "i < length (arp_table w)" "b \<in> set (snd (tmr_entry (arp_table w ! i)))"
  shows "PbufFree (ref b) \<in> set (new_events w (etharp_tmr w))"
proof -
  have "arp_table w ! i \<in> set (arp_table w)" using assms(1) by simp
  then show ?thesis using assms(2)
    by (auto simp add: new_events_def etharp_tmr_events)
qed

text \<open>Reaching an aged slot: \<open>n\<close> ticks on an initialised cache.\<close>

lemma empty_cache_table:
  "empty_cache = \<lparr>arp_table = replicate 4 zero_entry, events = []\<rparr>"
  unfolding empty_cache_def by code_simp

lemma etharp_tmr_all_empty:
  assumes "state e = ETHARP_STATE_EMPTY"
  shows "etharp_tmr \<lparr>arp_table = replicate n e, events = ev\<rparr> =
           \<lparr>arp_table = replicate n (e\<lparr>ctime := ctime e + 1\<rparr>), events = ev\<rparr>"
proof -
  have t: "tmr_entry e = (e\<lparr>ctime := ctime e + 1\<rparr>, [])"
    using assms by (simp add: tmr_entry_def tmr_expire_def Let_def)
  have "arp_table (etharp_tmr \<lparr>arp_table = replicate n e, events = ev\<rparr>) =
          replicate n (e\<lparr>ctime := ctime e + 1\<rparr>)"
    by (simp add: etharp_tmr_table t)
  moreover have "events (etharp_tmr \<lparr>arp_table = replicate n e, events = ev\<rparr>) = ev"
    by (simp add: etharp_tmr_events t)
  ultimately show ?thesis by simp
qed

lemma ticks_all_empty:
  assumes "state e = ETHARP_STATE_EMPTY"
  shows "(etharp_tmr ^^ n) \<lparr>arp_table = replicate m e, events = ev\<rparr> =
           \<lparr>arp_table = replicate m (e\<lparr>ctime := ctime e + of_nat n\<rparr>), events = ev\<rparr>"
proof (induction n)
  case 0
  show ?case by simp
next
  case (Suc n)
  have "state (e\<lparr>ctime := ctime e + of_nat n\<rparr>) = ETHARP_STATE_EMPTY"
    using assms by simp
  from etharp_tmr_all_empty [OF this, of m ev] show ?case
    by (simp add: Suc ac_simps)
qed

lemma ticks_initial:
  "(etharp_tmr ^^ n) empty_cache =
     \<lparr>arp_table = replicate 4 \<lparr>ipaddr = 0, ethaddr = Eth_addr 0 0 0 0 0 0,
                                 state = ETHARP_STATE_EMPTY, p_queue = [], ctime = of_nat n\<rparr>,
      events = []\<rparr>"
proof -
  have "state zero_entry = ETHARP_STATE_EMPTY" by (simp add: zero_entry_def)
  from ticks_all_empty [OF this, of n 4 "[]"] show ?thesis
    by (simp add: empty_cache_table zero_entry_def)
qed

lemma aged_world_255:
  "(etharp_tmr ^^ 255) empty_cache =
     \<lparr>arp_table = replicate 4 \<lparr>ipaddr = 0, ethaddr = Eth_addr 0 0 0 0 0 0,
                                 state = ETHARP_STATE_EMPTY, p_queue = [], ctime = 255\<rparr>,
      events = []\<rparr>"
  by (simp add: ticks_initial)

lemma aged_pending_table:
  "arp_table aged_pending_world =
     [\<lparr>ipaddr = 0x0A000006, ethaddr = Eth_addr 0 0 0 0 0 0, state = ETHARP_STATE_PENDING,
       p_queue = [], ctime = 255\<rparr>,
      \<lparr>ipaddr = 0, ethaddr = Eth_addr 0 0 0 0 0 0, state = ETHARP_STATE_EMPTY,
       p_queue = [], ctime = 255\<rparr>,
      \<lparr>ipaddr = 0, ethaddr = Eth_addr 0 0 0 0 0 0, state = ETHARP_STATE_EMPTY,
       p_queue = [], ctime = 255\<rparr>,
      \<lparr>ipaddr = 0, ethaddr = Eth_addr 0 0 0 0 0 0, state = ETHARP_STATE_EMPTY,
       p_queue = [], ctime = 255\<rparr>]"
  unfolding aged_pending_world_def aged_world_255 by code_simp

lemma tmr_entry_aged_pending:
  "fst (tmr_entry \<lparr>ipaddr = 0x0A000006, ethaddr = Eth_addr 0 0 0 0 0 0,
                   state = ETHARP_STATE_PENDING, p_queue = [], ctime = 255\<rparr>) =
   \<lparr>ipaddr = 0x0A000006, ethaddr = Eth_addr 0 0 0 0 0 0, state = ETHARP_STATE_PENDING,
     p_queue = [], ctime = 0\<rparr>"
  by code_simp

text \<open>
  Claim C10, as the code has it: \<open>etharp_tmr\<close> adds one to the 8-bit age of every slot, in
  any state, modulo 256. Below 255 the age grows by exactly one; from 255 it goes back to 0.
  There is no saturation.
\<close>

theorem etharp_tmr_age_modulo:
  "i < length (arp_table w) \<Longrightarrow>
   unat (ctime (arp_table (etharp_tmr w) ! i)) =
     (if unat (ctime (arp_table w ! i)) = 255 then 0 else unat (ctime (arp_table w ! i)) + 1)"
  by (simp add: etharp_tmr_table ctime_tmr_entry unat_ctime_succ)

theorem etharp_tmr_age_modulo_witness:
  "0 < length (arp_table aged_pending_world) \<and>
   unat (ctime (arp_table (etharp_tmr aged_pending_world) ! 0)) = 0"
  using etharp_tmr_age_modulo [of 0 aged_pending_world] by (simp add: aged_pending_table)

text \<open>
  Claim C10 as stated fails: from the initialised cache the age of a slot is 255 after 255
  ticks and 0 after the next one, so it decreases.
\<close>

theorem etharp_tmr_age_wraps_counterexample:
  "ctime (arp_table ((etharp_tmr ^^ 255) empty_cache) ! 0) = 255 \<and>
   ctime (arp_table ((etharp_tmr ^^ 256) empty_cache) ! 0) = 0"
  by (simp add: ticks_initial)

lemma tmr_entry_wrap:
  assumes "state e = ETHARP_STATE_STABLE \<or> state e = ETHARP_STATE_PENDING" "ctime e = 255"
  shows "tmr_entry e = (e\<lparr>ctime := 0\<rparr>, [])"
proof -
  have z: "ctime e + 1 = 0" using assms(2) by simp
  have n: "\<not> ARP_MAXAGE \<le> (0 :: u8_t)" "\<not> ARP_MAXPENDING \<le> (0 :: u8_t)"
    by (simp_all add: ARP_MAXAGE_def ARP_MAXPENDING_def)
  show ?thesis
    using assms(1) n by (auto simp add: tmr_entry_def tmr_expire_def Let_def z)
qed

text \<open>
  Claim C5, as the code has it: after \<open>etharp_tmr\<close> no slot is in state \<open>EXPIRED\<close>; a slot
  that was stable with age from 119 to 254, or pending with age up to 254, is empty after
  the call, its queue is \<open>NULL\<close> and every buffer that was queued on it has been passed to
  \<open>pbuf_free\<close> by the call; a stable or pending slot of age 255 is not removed: it is as
  before but for its age, which is 0.
\<close>

theorem etharp_tmr_expires:
  assumes "i < length (arp_table w)"
  shows "state (arp_table (etharp_tmr w) ! i) \<noteq> ETHARP_STATE_EXPIRED \<and>
     ((state (arp_table w ! i) = ETHARP_STATE_STABLE \<and> 119 \<le> unat (ctime (arp_table w ! i))
          \<and> unat (ctime (arp_table w ! i)) < 255) \<or>
      (state (arp_table w ! i) = ETHARP_STATE_PENDING \<and> unat (ctime (arp_table w ! i)) < 255)
      \<longrightarrow> state (arp_table (etharp_tmr w) ! i) = ETHARP_STATE_EMPTY \<and>
          p_queue (arp_table (etharp_tmr w) ! i) = [] \<and>
          (\<forall>b \<in> set (p_queue (arp_table w ! i)).
              PbufFree (ref b) \<in> set (new_events w (etharp_tmr w)))) \<and>
     ((state (arp_table w ! i) = ETHARP_STATE_STABLE \<or>
       state (arp_table w ! i) = ETHARP_STATE_PENDING) \<and> ctime (arp_table w ! i) = 255
      \<longrightarrow> arp_table (etharp_tmr w) ! i = (arp_table w ! i)\<lparr>ctime := 0\<rparr>)"
proof -
  let ?e = "arp_table w ! i"
  have e': "arp_table (etharp_tmr w) ! i = fst (tmr_entry ?e)"
    using assms by (simp add: etharp_tmr_table)
  have 1: "state (arp_table (etharp_tmr w) ! i) \<noteq> ETHARP_STATE_EXPIRED"
    by (simp add: e' state_tmr_entry_not_expired)
  have 2: "state (arp_table (etharp_tmr w) ! i) = ETHARP_STATE_EMPTY \<and>
          p_queue (arp_table (etharp_tmr w) ! i) = [] \<and>
          (\<forall>b \<in> set (p_queue ?e). PbufFree (ref b) \<in> set (new_events w (etharp_tmr w)))"
    if h: "(state ?e = ETHARP_STATE_STABLE \<and> 119 \<le> unat (ctime ?e) \<and> unat (ctime ?e) < 255) \<or>
      (state ?e = ETHARP_STATE_PENDING \<and> unat (ctime ?e) < 255)"
  proof -
    have t: "tmr_entry ?e =
        (?e\<lparr>ctime := ctime ?e + 1, p_queue := [], state := ETHARP_STATE_EMPTY\<rparr>, p_queue ?e)"
      using h tmr_entry_stable tmr_entry_pending by blast
    show ?thesis
      using tmr_freed_in_events [OF assms] by (simp add: e' t)
  qed
  have 3: "arp_table (etharp_tmr w) ! i = ?e\<lparr>ctime := 0\<rparr>"
    if "(state ?e = ETHARP_STATE_STABLE \<or> state ?e = ETHARP_STATE_PENDING) \<and> ctime ?e = 255"
    using that tmr_entry_wrap [of ?e] by (simp add: e')
  show ?thesis using 1 2 3 by blast
qed

theorem etharp_tmr_expires_witness:
  "0 < length (arp_table queued_pending_world) \<and>
   state (arp_table queued_pending_world ! 0) = ETHARP_STATE_PENDING \<and>
   unat (ctime (arp_table queued_pending_world ! 0)) < 255 \<and>
   state (arp_table (etharp_tmr queued_pending_world) ! 0) = ETHARP_STATE_EMPTY \<and>
   p_queue (arp_table (etharp_tmr queued_pending_world) ! 0) = [] \<and>
   PbufFree 7 \<in> set (new_events queued_pending_world (etharp_tmr queued_pending_world)) \<and>
   0 < length (arp_table old_stable_world) \<and>
   state (arp_table old_stable_world ! 0) = ETHARP_STATE_STABLE \<and>
   unat (ctime (arp_table old_stable_world ! 0)) = 119 \<and>
   state (arp_table (etharp_tmr old_stable_world) ! 0) = ETHARP_STATE_EMPTY \<and>
   0 < length (arp_table wrapped_stable_world) \<and>
   state (arp_table wrapped_stable_world ! 0) = ETHARP_STATE_STABLE \<and>
   ctime (arp_table wrapped_stable_world ! 0) = 255 \<and>
   arp_table (etharp_tmr wrapped_stable_world) ! 0 =
     \<lparr>ipaddr = 0x0A000005, ethaddr = Eth_addr 2 0 0 0 0 5, state = ETHARP_STATE_STABLE,
      p_queue = [], ctime = 0\<rparr> \<and>
   0 < length (arp_table aged_pending_world) \<and>
   state (arp_table aged_pending_world ! 0) = ETHARP_STATE_PENDING \<and>
   ctime (arp_table aged_pending_world ! 0) = 255 \<and>
   arp_table (etharp_tmr aged_pending_world) ! 0 =
     \<lparr>ipaddr = 0x0A000006, ethaddr = Eth_addr 0 0 0 0 0 0, state = ETHARP_STATE_PENDING,
      p_queue = [], ctime = 0\<rparr>"
  using etharp_tmr_expires [of 0 queued_pending_world] etharp_tmr_expires [of 0 old_stable_world]
    etharp_tmr_expires [of 0 wrapped_stable_world] etharp_tmr_expires [of 0 aged_pending_world]
  by (simp add: queued_pending_world_def old_stable_world_def wrapped_stable_world_def
      ip_pkt_def aged_pending_table)

text \<open>
  Claim C5 as stated fails at age 255: the slot of \<open>aged_pending_world\<close> is pending with
  age 255 (at least \<open>ARP_MAXPENDING\<close>) and is still pending after the tick, because the
  increment wraps to 0 before the test.
\<close>

theorem etharp_tmr_pending_survives_counterexample:
  "state (arp_table aged_pending_world ! 0) = ETHARP_STATE_PENDING \<and>
   ARP_MAXPENDING \<le> ctime (arp_table aged_pending_world ! 0) \<and>
   state (arp_table (etharp_tmr aged_pending_world) ! 0) = ETHARP_STATE_PENDING"
  by (simp add: etharp_tmr_table aged_pending_table tmr_entry_aged_pending ARP_MAXPENDING_def)

section \<open>Choosing a slot\<close>

declare find_arp_entry_scan.simps [simp del]

lemma scan_end: "\<not> i < length tbl \<Longrightarrow> find_arp_entry_scan tbl i j m = Inr j"
  by (simp add: find_arp_entry_scan.simps [of tbl i])

lemma scan_stop:
  "i < length tbl \<Longrightarrow> state (tbl ! i) = ETHARP_STATE_EMPTY \<Longrightarrow>
   find_arp_entry_scan tbl i j m = Inl i"
  by (simp add: find_arp_entry_scan.simps [of tbl i])

lemma scan_step:
  "i < length tbl \<Longrightarrow> state (tbl ! i) \<noteq> ETHARP_STATE_EMPTY \<Longrightarrow>
   find_arp_entry_scan tbl i j m =
     (if state (tbl ! i) = ETHARP_STATE_STABLE \<and> m \<le> ctime (tbl ! i)
      then find_arp_entry_scan tbl (Suc i) i (ctime (tbl ! i))
      else find_arp_entry_scan tbl (Suc i) j m)"
  by (simp add: find_arp_entry_scan.simps [of tbl i])

lemma scan_Inl:
  "find_arp_entry_scan tbl i j m = Inl k \<Longrightarrow>
   i \<le> k \<and> k < length tbl \<and> state (tbl ! k) = ETHARP_STATE_EMPTY \<and>
   (\<forall>n. i \<le> n \<and> n < k \<longrightarrow> state (tbl ! n) \<noteq> ETHARP_STATE_EMPTY)"
proof (induction "length tbl - i" arbitrary: i j m)
  case 0
  then show ?case by (simp add: scan_end)
next
  case (Suc d)
  then have i: "i < length tbl" and d: "d = length tbl - Suc i" by simp_all
  show ?case
  proof (cases "state (tbl ! i) = ETHARP_STATE_EMPTY")
    case True
    with i Suc.prems have "k = i" by (simp add: scan_stop)
    with True i show ?thesis by auto
  next
    case ne: False
    from Suc.prems obtain j2 m2 where "find_arp_entry_scan tbl (Suc i) j2 m2 = Inl k"
      by (simp add: scan_step [OF i ne] split: if_splits)
    from Suc.hyps(1) [OF d this]
    have A: "Suc i \<le> k" "k < length tbl" "state (tbl ! k) = ETHARP_STATE_EMPTY"
      and B: "\<And>n. Suc i \<le> n \<Longrightarrow> n < k \<Longrightarrow> state (tbl ! n) \<noteq> ETHARP_STATE_EMPTY"
      by blast+
    have "state (tbl ! n) \<noteq> ETHARP_STATE_EMPTY" if "i \<le> n" "n < k" for n
    proof (cases "n = i")
      case True
      with ne show ?thesis by simp
    next
      case False
      with that have "Suc i \<le> n" by simp
      from B [OF this that(2)] show ?thesis .
    qed
    with A show ?thesis by auto
  qed
qed

lemma scan_Inr_no_empty:
  "find_arp_entry_scan tbl i j m = Inr j' \<Longrightarrow> i \<le> n \<Longrightarrow> n < length tbl \<Longrightarrow>
   state (tbl ! n) \<noteq> ETHARP_STATE_EMPTY"
proof (induction "length tbl - i" arbitrary: i j m)
  case 0
  then show ?case by simp
next
  case (Suc d)
  then have i: "i < length tbl" and d: "d = length tbl - Suc i" by simp_all
  from Suc.prems(1) i have ne: "state (tbl ! i) \<noteq> ETHARP_STATE_EMPTY"
    by (auto simp add: scan_stop)
  show ?case
  proof (cases "n = i")
    case True
    with ne show ?thesis by simp
  next
    case False
    with Suc.prems have n: "Suc i \<le> n" by simp
    from Suc.prems(1) obtain j2 m2 where "find_arp_entry_scan tbl (Suc i) j2 m2 = Inr j'"
      by (simp add: scan_step [OF i ne] split: if_splits)
    from Suc.hyps(1) [OF d this n Suc.prems(3)] show ?thesis .
  qed
qed

lemma scan_Inr:
  "find_arp_entry_scan tbl i j m = Inr j' \<Longrightarrow>
   (j' = j \<and> (\<forall>n. i \<le> n \<and> n < length tbl \<and> state (tbl ! n) = ETHARP_STATE_STABLE
                    \<longrightarrow> ctime (tbl ! n) < m)) \<or>
   (i \<le> j' \<and> j' < length tbl \<and> state (tbl ! j') = ETHARP_STATE_STABLE \<and> m \<le> ctime (tbl ! j') \<and>
    (\<forall>n. i \<le> n \<and> n < length tbl \<and> state (tbl ! n) = ETHARP_STATE_STABLE
          \<longrightarrow> ctime (tbl ! n) \<le> ctime (tbl ! j')) \<and>
    (\<forall>n. j' < n \<and> n < length tbl \<and> state (tbl ! n) = ETHARP_STATE_STABLE
          \<longrightarrow> ctime (tbl ! n) < ctime (tbl ! j')))"
  (is "_ \<Longrightarrow> ?R i j m")
proof (induction "length tbl - i" arbitrary: i j m)
  case 0
  then have "\<not> i < length tbl" by simp
  with "0.prems" have "j' = j" by (simp add: scan_end)
  moreover from \<open>\<not> i < length tbl\<close>
  have "\<forall>n. i \<le> n \<and> n < length tbl \<and> state (tbl ! n) = ETHARP_STATE_STABLE
          \<longrightarrow> ctime (tbl ! n) < m" by auto
  ultimately show ?case by blast
next
  case (Suc d)
  then have i: "i < length tbl" and d: "d = length tbl - Suc i" by simp_all
  from Suc.prems(1) i have ne: "state (tbl ! i) \<noteq> ETHARP_STATE_EMPTY"
    by (auto simp add: scan_stop)
  have nx: "n = i \<or> Suc i \<le> n" if "i \<le> n" for n using that by auto
  show ?case
  proof (cases "state (tbl ! i) = ETHARP_STATE_STABLE \<and> m \<le> ctime (tbl ! i)")
    case True
    with Suc.prems have "find_arp_entry_scan tbl (Suc i) i (ctime (tbl ! i)) = Inr j'"
      by (simp add: scan_step [OF i ne])
    from Suc.hyps(1) [OF d this] have "?R (Suc i) i (ctime (tbl ! i))" .
    then show ?thesis
    proof (elim disjE conjE)
      assume a: "j' = i"
        and b: "\<forall>n. Suc i \<le> n \<and> n < length tbl \<and> state (tbl ! n) = ETHARP_STATE_STABLE
                  \<longrightarrow> ctime (tbl ! n) < ctime (tbl ! i)"
      have "ctime (tbl ! n) \<le> ctime (tbl ! i)"
        if "i \<le> n" "n < length tbl" "state (tbl ! n) = ETHARP_STATE_STABLE" for n
        using nx [OF that(1)] b that by (auto simp add: less_imp_le)
      moreover have "ctime (tbl ! n) < ctime (tbl ! i)"
        if "i < n" "n < length tbl" "state (tbl ! n) = ETHARP_STATE_STABLE" for n
        using b that by (simp add: Suc_le_eq)
      ultimately show ?thesis using a i True by auto
    next
      assume a: "Suc i \<le> j'" "j' < length tbl" "state (tbl ! j') = ETHARP_STATE_STABLE"
        "ctime (tbl ! i) \<le> ctime (tbl ! j')"
        and b: "\<forall>n. Suc i \<le> n \<and> n < length tbl \<and> state (tbl ! n) = ETHARP_STATE_STABLE
                  \<longrightarrow> ctime (tbl ! n) \<le> ctime (tbl ! j')"
        and c: "\<forall>n. j' < n \<and> n < length tbl \<and> state (tbl ! n) = ETHARP_STATE_STABLE
                  \<longrightarrow> ctime (tbl ! n) < ctime (tbl ! j')"
      have "ctime (tbl ! n) \<le> ctime (tbl ! j')"
        if "i \<le> n" "n < length tbl" "state (tbl ! n) = ETHARP_STATE_STABLE" for n
        using nx [OF that(1)] a b that by auto
      moreover have "m \<le> ctime (tbl ! j')" using True a(4) by (blast intro: order_trans)
      ultimately show ?thesis using a c by auto
    qed
  next
    case False
    with Suc.prems have "find_arp_entry_scan tbl (Suc i) j m = Inr j'"
      by (simp add: scan_step [OF i ne])
    from Suc.hyps(1) [OF d this] have "?R (Suc i) j m" .
    then show ?thesis
    proof (elim disjE conjE)
      assume a: "j' = j"
        and b: "\<forall>n. Suc i \<le> n \<and> n < length tbl \<and> state (tbl ! n) = ETHARP_STATE_STABLE
                  \<longrightarrow> ctime (tbl ! n) < m"
      have "ctime (tbl ! n) < m"
        if "i \<le> n" "n < length tbl" "state (tbl ! n) = ETHARP_STATE_STABLE" for n
        using nx [OF that(1)] b that False by auto
      then show ?thesis using a by auto
    next
      assume a: "Suc i \<le> j'" "j' < length tbl" "state (tbl ! j') = ETHARP_STATE_STABLE"
        "m \<le> ctime (tbl ! j')"
        and b: "\<forall>n. Suc i \<le> n \<and> n < length tbl \<and> state (tbl ! n) = ETHARP_STATE_STABLE
                  \<longrightarrow> ctime (tbl ! n) \<le> ctime (tbl ! j')"
        and c: "\<forall>n. j' < n \<and> n < length tbl \<and> state (tbl ! n) = ETHARP_STATE_STABLE
                  \<longrightarrow> ctime (tbl ! n) < ctime (tbl ! j')"
      have "ctime (tbl ! n) \<le> ctime (tbl ! j')"
        if "i \<le> n" "n < length tbl" "state (tbl ! n) = ETHARP_STATE_STABLE" for n
        using nx [OF that(1)] a b that False by auto
      then show ?thesis using a c by auto
    qed
  qed
qed


lemma find_arp_entry_first_empty:
  assumes i: "i < length (arp_table w)" and e: "state (arp_table w ! i) = ETHARP_STATE_EMPTY"
    and first: "\<forall>n<i. state (arp_table w ! n) \<noteq> ETHARP_STATE_EMPTY"
  shows "find_arp_entry w = (Inr i, w)"
proof (cases "find_arp_entry_scan (arp_table w) 0 (length (arp_table w)) 0")
  case (Inl k)
  from scan_Inl [OF Inl] have k: "k < length (arp_table w)"
    "state (arp_table w ! k) = ETHARP_STATE_EMPTY"
    "\<forall>n. n < k \<longrightarrow> state (arp_table w ! n) \<noteq> ETHARP_STATE_EMPTY" by simp_all
  have "k = i"
  proof (rule ccontr)
    assume "k \<noteq> i"
    then have "k < i \<or> i < k" by auto
    with k e first show False by blast
  qed
  with Inl show ?thesis by (simp add: find_arp_entry_def)
next
  case (Inr j')
  from scan_Inr_no_empty [OF Inr _ i] e show ?thesis by simp
qed

lemma find_arp_entry_oldest_stable:
  assumes ne: "ETHARP_STATE_EMPTY \<notin> state ` set (arp_table w)"
    and st: "ETHARP_STATE_STABLE \<in> state ` set (arp_table w)"
  shows "\<exists>j. j < length (arp_table w) \<and> state (arp_table w ! j) = ETHARP_STATE_STABLE \<and>
     (\<forall>n. n < length (arp_table w) \<and> state (arp_table w ! n) = ETHARP_STATE_STABLE
          \<longrightarrow> ctime (arp_table w ! n) \<le> ctime (arp_table w ! j)) \<and>
     (\<forall>n. j < n \<and> n < length (arp_table w) \<and> state (arp_table w ! n) = ETHARP_STATE_STABLE
          \<longrightarrow> ctime (arp_table w ! n) < ctime (arp_table w ! j)) \<and>
     find_arp_entry w =
       (Inr j, w\<lparr>arp_table := (arp_table w)[j := (arp_table w ! j)
                    \<lparr>p_queue := [], state := ETHARP_STATE_EMPTY\<rparr>],
                events := events w @ map (\<lambda>b. PbufFree (ref b)) (p_queue (arp_table w ! j))\<rparr>)"
proof (cases "find_arp_entry_scan (arp_table w) 0 (length (arp_table w)) 0")
  case (Inl k)
  from scan_Inl [OF Inl] have "k < length (arp_table w)"
    "state (arp_table w ! k) = ETHARP_STATE_EMPTY" by simp_all
  then have "ETHARP_STATE_EMPTY \<in> state ` set (arp_table w)"
    by (metis imageI nth_mem)
  with ne show ?thesis by simp
next
  case (Inr j')
  from st obtain s where s: "s < length (arp_table w)"
    "state (arp_table w ! s) = ETHARP_STATE_STABLE"
    by (auto simp add: in_set_conv_nth)
  have "\<not> ctime (arp_table w ! s) < 0" by simp
  with s scan_Inr [OF Inr] have j:
    "j' < length (arp_table w)" "state (arp_table w ! j') = ETHARP_STATE_STABLE"
    "\<forall>n. n < length (arp_table w) \<and> state (arp_table w ! n) = ETHARP_STATE_STABLE
          \<longrightarrow> ctime (arp_table w ! n) \<le> ctime (arp_table w ! j')"
    "\<forall>n. j' < n \<and> n < length (arp_table w) \<and> state (arp_table w ! n) = ETHARP_STATE_STABLE
          \<longrightarrow> ctime (arp_table w ! n) < ctime (arp_table w ! j')"
    by auto
  have "find_arp_entry w =
       (Inr j', w\<lparr>arp_table := (arp_table w)[j' := (arp_table w ! j')
                    \<lparr>p_queue := [], state := ETHARP_STATE_EMPTY\<rparr>],
                events := events w @ map (\<lambda>b. PbufFree (ref b)) (p_queue (arp_table w ! j'))\<rparr>)"
    using Inr j(1,2) by (simp add: find_arp_entry_def pbuf_free_def)
  with j show ?thesis by blast
qed

lemma find_arp_entry_none:
  assumes ne: "ETHARP_STATE_EMPTY \<notin> state ` set (arp_table w)"
    and st: "ETHARP_STATE_STABLE \<notin> state ` set (arp_table w)"
  shows "find_arp_entry w = (Inl ERR_MEM, w)"
proof (cases "find_arp_entry_scan (arp_table w) 0 (length (arp_table w)) 0")
  case (Inl k)
  from scan_Inl [OF Inl] have "k < length (arp_table w)"
    "state (arp_table w ! k) = ETHARP_STATE_EMPTY" by simp_all
  then have "ETHARP_STATE_EMPTY \<in> state ` set (arp_table w)"
    by (metis imageI nth_mem)
  with ne show ?thesis by simp
next
  case (Inr j')
  have "j' = length (arp_table w)"
  proof (rule ccontr)
    assume "j' \<noteq> length (arp_table w)"
    with scan_Inr [OF Inr] have "j' < length (arp_table w)"
      "state (arp_table w ! j') = ETHARP_STATE_STABLE" by auto
    then have "ETHARP_STATE_STABLE \<in> state ` set (arp_table w)"
      by (metis imageI nth_mem)
    with st show False by simp
  qed
  with Inr show ?thesis by (simp add: find_arp_entry_def)
qed

text \<open>
  Claim C6, as the code has it. \<open>find_arp_entry\<close> returns the first empty slot when there
  is one and changes nothing. With no empty slot and at least one stable slot it returns a
  stable slot of greatest age, the last such slot in scan order when several have that age
  (the scan replaces its candidate when \<open>ctime >= maxtime\<close>); that slot's queue is passed
  to \<open>pbuf_free\<close> and the slot is set empty with its queue \<open>NULL\<close>. With neither an empty
  nor a stable slot it returns \<open>ERR_MEM\<close> and changes nothing.
\<close>

theorem find_arp_entry_choice:
  "(\<forall>i. i < length (arp_table w) \<and> state (arp_table w ! i) = ETHARP_STATE_EMPTY \<and>
        (\<forall>n<i. state (arp_table w ! n) \<noteq> ETHARP_STATE_EMPTY)
        \<longrightarrow> find_arp_entry w = (Inr i, w)) \<and>
   (ETHARP_STATE_EMPTY \<notin> state ` set (arp_table w) \<and>
    ETHARP_STATE_STABLE \<in> state ` set (arp_table w) \<longrightarrow>
    (\<exists>j. j < length (arp_table w) \<and> state (arp_table w ! j) = ETHARP_STATE_STABLE \<and>
     (\<forall>n. n < length (arp_table w) \<and> state (arp_table w ! n) = ETHARP_STATE_STABLE
          \<longrightarrow> ctime (arp_table w ! n) \<le> ctime (arp_table w ! j)) \<and>
     (\<forall>n. j < n \<and> n < length (arp_table w) \<and> state (arp_table w ! n) = ETHARP_STATE_STABLE
          \<longrightarrow> ctime (arp_table w ! n) < ctime (arp_table w ! j)) \<and>
     find_arp_entry w =
       (Inr j, w\<lparr>arp_table := (arp_table w)[j := (arp_table w ! j)
                    \<lparr>p_queue := [], state := ETHARP_STATE_EMPTY\<rparr>],
                events := events w @ map (\<lambda>b. PbufFree (ref b)) (p_queue (arp_table w ! j))\<rparr>))) \<and>
   (ETHARP_STATE_EMPTY \<notin> state ` set (arp_table w) \<and>
    ETHARP_STATE_STABLE \<notin> state ` set (arp_table w) \<longrightarrow>
    find_arp_entry w = (Inl ERR_MEM, w))"
  using find_arp_entry_first_empty [of _ w] find_arp_entry_oldest_stable [of w]
    find_arp_entry_none [of w]
  by blast

text \<open>
  Claim C6 as stated fails on ties: with two stable slots of age 5 and no empty slot the
  code returns slot 1, the last one scanned, not the first.
\<close>

theorem find_arp_entry_tie_counterexample:
  "state (arp_table tie_world ! 0) = ETHARP_STATE_STABLE \<and>
   state (arp_table tie_world ! 1) = ETHARP_STATE_STABLE \<and>
   ctime (arp_table tie_world ! 0) = ctime (arp_table tie_world ! 1) \<and>
   fst (find_arp_entry tie_world) = Inr 1"
  by code_simp

theorem find_arp_entry_choice_witness:
  "ETHARP_STATE_EMPTY \<notin> state ` set (arp_table full_world) \<and>
   ETHARP_STATE_STABLE \<in> state ` set (arp_table full_world) \<and>
   fst (find_arp_entry full_world) = Inr 1 \<and>
   state (arp_table (snd (find_arp_entry full_world)) ! 1) = ETHARP_STATE_EMPTY \<and>
   events (snd (find_arp_entry full_world)) = [PbufFree 7] \<and>
   1 < length (arp_table aged_pending_world) \<and>
   state (arp_table aged_pending_world ! 1) = ETHARP_STATE_EMPTY \<and>
   state (arp_table aged_pending_world ! 0) = ETHARP_STATE_PENDING \<and>
   find_arp_entry aged_pending_world = (Inr 1, aged_pending_world) \<and>
   ETHARP_STATE_EMPTY \<notin> state ` set (arp_table queued_pending_world) \<and>
   ETHARP_STATE_STABLE \<notin> state ` set (arp_table queued_pending_world) \<and>
   find_arp_entry queued_pending_world = (Inl ERR_MEM, queued_pending_world)"
proof -
  have "\<forall>n<1. state (arp_table aged_pending_world ! n) \<noteq> ETHARP_STATE_EMPTY"
    by (simp add: aged_pending_table)
  with find_arp_entry_choice [of aged_pending_world]
  have a: "find_arp_entry aged_pending_world = (Inr 1, aged_pending_world)"
    by (simp add: aged_pending_table)
  from find_arp_entry_choice [of queued_pending_world]
  have b: "find_arp_entry queued_pending_world = (Inl ERR_MEM, queued_pending_world)"
    by (simp add: queued_pending_world_def)
  from find_arp_entry_choice [of full_world] a b show ?thesis
    by (simp add: full_world_def ip_pkt_def find_arp_entry_def find_arp_entry_scan.simps
        pbuf_free_def aged_pending_table queued_pending_world_def)
qed

section \<open>Learning: update_arp_entry\<close>

declare table_search.simps [simp del]

lemma copy_addr_6: "copy_addr 6 s d = s"
  by (cases s; cases d) (simp add: copy_addr_def upt_rec)

lemma addr_get_set:
  "addr_get (addr_set a k v) j = (if j = k \<and> k < 6 then v else addr_get a j)"
  by (cases a) auto

lemma addr_get_copy_fold:
  "addr_get (fold (\<lambda>k a. addr_set a k (addr_get s k)) [0..<m] d) j =
     (if j < m \<and> j < 6 then addr_get s j else addr_get d j)"
proof (induction m)
  case 0
  show ?case by simp
next
  case (Suc m)
  show ?case by (auto simp add: Suc addr_get_set)
qed

text \<open>
  For any length \<open>n\<close> the copy loop sets the first \<open>n\<close> octets (at most six) and leaves the
  others as they were.
\<close>

lemma addr_get_copy_addr:
  "addr_get (copy_addr n s d) j = (if j < unat n \<and> j < 6 then addr_get s j else addr_get d j)"
  by (simp add: copy_addr_def addr_get_copy_fold)

lemma fill_ethhdr_6:
  "fill_ethhdr 6 d s t b = b\<lparr>payload := (payload b)\<lparr>ethhdr := \<lparr>dest = d, src = s, type = htons t\<rparr>\<rparr>\<rparr>"
  by (simp add: fill_ethhdr_def copy_addr_6)

lemma ref_fill_ethhdr: "ref (fill_ethhdr n d s t b) = ref b"
  by (simp add: fill_ethhdr_def)

lemma send_queued_effect:
  "arp_table (send_queued netif mac q w) = arp_table w \<and>
   events (send_queued netif mac q w) =
     events w @ concat (map (\<lambda>b. [LinkOutput (fill_ethhdr (hwaddr_len netif) mac (hwaddr netif) ETHTYPE_IP b),
                                   PbufFree (ref b)]) q)"
  by (induction q arbitrary: w)
     (simp_all add: Let_def pbuf_free_def call_linkoutput_def ref_fill_ethhdr)

lemma table_search_first:
  assumes "i < length tbl" "j \<le> i"
    and "state (tbl ! i) = ETHARP_STATE_PENDING \<or> state (tbl ! i) = ETHARP_STATE_STABLE"
    and "ipaddr (tbl ! i) = ip"
    and "\<forall>n. j \<le> n \<and> n < i \<longrightarrow>
           \<not> ((state (tbl ! n) = ETHARP_STATE_PENDING \<or> state (tbl ! n) = ETHARP_STATE_STABLE) \<and>
              ipaddr (tbl ! n) = ip)"
  shows "table_search ip tbl j = i"
  using assms
proof (induction "i - j" arbitrary: j)
  case 0
  then have "j = i" by simp
  with "0.prems" show ?case by (auto simp add: table_search.simps [of ip tbl i])
next
  case (Suc d)
  then have j: "j < i" "j < length tbl" and d: "d = i - Suc j" by simp_all
  from Suc.prems(5) j have
    nohit: "\<not> ((state (tbl ! j) = ETHARP_STATE_PENDING \<or> state (tbl ! j) = ETHARP_STATE_STABLE) \<and>
              ipaddr (tbl ! j) = ip)" by simp
  have "table_search ip tbl j = table_search ip tbl (Suc j)"
    using j nohit by (auto simp add: table_search.simps [of ip tbl j])
  moreover have "table_search ip tbl (Suc j) = i"
    using Suc.hyps(1) [OF d Suc.prems(1)] j Suc.prems by simp
  ultimately show ?case by simp
qed

lemma ntohs_ETHTYPE_IP: "ntohs (htons ETHTYPE_IP) = 0x0800"
  by (simp add: ntohs_def htons_def ETHTYPE_IP_def)

text \<open>
  Claim C2, as the code has it. A call of \<open>update_arp_entry\<close> on an interface whose
  hardware-address length is 6, with an address other than 0.0.0.0, whose search finds a
  pending slot \<open>i\<close> for that address (no earlier slot is pending or stable with it): on
  return the slot is stable, its hardware address is \<open>mac\<close>, its age 0 and its queue
  \<open>NULL\<close>; the calls made are, for each queued buffer from the head of the queue on,
  \<open>linkoutput\<close> with the Ethernet header set to \<open>dest = mac\<close>, \<open>src = netif->hwaddr\<close>,
  \<open>type = htons(ETHTYPE_IP)\<close> (0x0800 on the wire), followed by \<open>pbuf_free\<close> of that
  buffer, and nothing else.
\<close>

theorem update_arp_entry_resolves_pending:
  assumes ip: "ip \<noteq> 0"
    and i: "i < length (arp_table w)"
    and pending: "state (arp_table w ! i) = ETHARP_STATE_PENDING"
    and match: "ipaddr (arp_table w ! i) = ip"
    and first: "\<forall>n<i. \<not> ((state (arp_table w ! n) = ETHARP_STATE_PENDING \<or>
                         state (arp_table w ! n) = ETHARP_STATE_STABLE) \<and>
                        ipaddr (arp_table w ! n) = ip)"
    and len: "hwaddr_len netif = 6"
  shows "arp_table (update_arp_entry netif ip mac flags w) =
           (arp_table w)[i := (arp_table w ! i)
              \<lparr>state := ETHARP_STATE_STABLE, ethaddr := mac, ctime := 0, p_queue := []\<rparr>] \<and>
         events (update_arp_entry netif ip mac flags w) =
           events w @ concat (map (\<lambda>b.
              [LinkOutput (b\<lparr>payload := (payload b)\<lparr>ethhdr :=
                  \<lparr>dest = mac, src = hwaddr netif, type = htons ETHTYPE_IP\<rparr>\<rparr>\<rparr>),
               PbufFree (ref b)]) (p_queue (arp_table w ! i))) \<and>
         ntohs (htons ETHTYPE_IP) = 0x0800"
proof -
  have s: "table_search ip (arp_table w) 0 = i"
    using table_search_first [OF i _ _ match, of 0] pending first by simp
  show ?thesis
    using ip i len
    by (simp add: update_arp_entry_def s Let_def send_queued_effect fill_ethhdr_6 copy_addr_6
        ntohs_ETHTYPE_IP)
qed

theorem update_arp_entry_resolves_pending_witness:
  "(0x0A000006 :: u32_t) \<noteq> 0 \<and> 0 < length (arp_table two_queued_world) \<and>
   state (arp_table two_queued_world ! 0) = ETHARP_STATE_PENDING \<and>
   ipaddr (arp_table two_queued_world ! 0) = 0x0A000006 \<and>
   hwaddr_len scenario_netif = 6 \<and>
   arp_table (update_arp_entry scenario_netif 0x0A000006 (Eth_addr 2 0 0 0 0 6) ARP_INSERT_FLAG
                two_queued_world) =
     [\<lparr>ipaddr = 0x0A000006, ethaddr = Eth_addr 2 0 0 0 0 6, state = ETHARP_STATE_STABLE,
       p_queue = [], ctime = 0\<rparr>] \<and>
   events (update_arp_entry scenario_netif 0x0A000006 (Eth_addr 2 0 0 0 0 6) ARP_INSERT_FLAG
             two_queued_world) =
     [LinkOutput \<lparr>ref = 7, tot_len = 20, payload = blank_hdr
         \<lparr>ethhdr := \<lparr>dest = Eth_addr 2 0 0 0 0 6, src = Eth_addr 2 0 0 0 0 2,
                      type = htons ETHTYPE_IP\<rparr>\<rparr>\<rparr>,
      PbufFree 7,
      LinkOutput \<lparr>ref = 8, tot_len = 20, payload = blank_hdr
         \<lparr>ethhdr := \<lparr>dest = Eth_addr 2 0 0 0 0 6, src = Eth_addr 2 0 0 0 0 2,
                      type = htons ETHTYPE_IP\<rparr>\<rparr>\<rparr>,
      PbufFree 8]"
  using update_arp_entry_resolves_pending
    [of "0x0A000006" 0 two_queued_world scenario_netif "Eth_addr 2 0 0 0 0 6" ARP_INSERT_FLAG]
  by (simp add: two_queued_world_def scenario_netif_def ip_pkt_def)

text \<open>
  Claim C2 as stated fails on an interface whose hardware-address length is not 6: the copy
  loops run to \<open>netif->hwaddr_len\<close>. With length 4 the slot's address is aa:bb:cc:dd:09:09,
  not aa:bb:cc:dd:ee:ff, and the frame's destination and source keep the last two octets
  the buffer held.
\<close>

theorem update_arp_entry_short_hwaddr_counterexample:
  "(0x0A000006 :: u32_t) \<noteq> 0 \<and>
   state (arp_table nines_pending_world ! 0) = ETHARP_STATE_PENDING \<and>
   ipaddr (arp_table nines_pending_world ! 0) = 0x0A000006 \<and>
   hwaddr short_netif = Eth_addr 2 0 0 0 0 2 \<and> hwaddr_len short_netif = 4 \<and>
   ethaddr (arp_table (update_arp_entry short_netif 0x0A000006
                         (Eth_addr 0xaa 0xbb 0xcc 0xdd 0xee 0xff) 0 nines_pending_world) ! 0) =
     Eth_addr 0xaa 0xbb 0xcc 0xdd 9 9 \<and>
   events (update_arp_entry short_netif 0x0A000006
             (Eth_addr 0xaa 0xbb 0xcc 0xdd 0xee 0xff) 0 nines_pending_world) =
     [LinkOutput \<lparr>ref = 7, tot_len = 20, payload = blank_hdr
         \<lparr>ethhdr := \<lparr>dest = Eth_addr 0xaa 0xbb 0xcc 0xdd 0 0, src = Eth_addr 2 0 0 0 0 0,
                      type = htons ETHTYPE_IP\<rparr>\<rparr>\<rparr>,
      PbufFree 7]"
  by code_simp

text \<open>An update for 0.0.0.0 returns at once and changes nothing (lines 251 to 255).\<close>

lemma update_arp_entry_zero: "update_arp_entry netif 0 mac flags w = w"
  by (simp add: update_arp_entry_def)






section \<open>Inbound ARP frames\<close>

text \<open>The byte swap is its own inverse.\<close>

lemma mask8: "(0xff :: u16_t) = mask 8"
  by (simp add: mask_eq_exp_minus_1)

lemma mask8hi: "(0xff00 :: u16_t) = push_bit 8 (mask 8)"
  by (simp add: mask_eq_exp_minus_1 push_bit_eq_mult)

lemma ntohs_htons: "ntohs (htons n) = n"
  unfolding ntohs_def htons_def mask8 mask8hi
  by (rule bit_word_eqI) (auto simp add: bit_simps)











section \<open>Queries and output\<close>

text \<open>
  The two length macros, applied in the order of the source, leave the pair (6, 4) whatever
  the buffer held before.
\<close>

lemma hwlen_protolen_set:
  "hwlen_protolen (ARPH_PROTOLEN_SET (ARPH_HWLEN_SET h 6\<lparr>proto := x\<rparr>) 4) = htons 0x0604"
proof -
  have "drop_bit 8 ((ntohs (hwlen_protolen h) AND 0xff) OR push_bit 8 (6 :: u16_t)) = 6"
    unfolding mask8
    by (rule bit_word_eqI) (auto simp add: bit_simps)
  then show ?thesis
    by (simp add: ARPH_PROTOLEN_SET_def ARPH_HWLEN_SET_def ARPH_HWLEN_def ARPH_PROTOLEN_def
        ntohs_htons)
qed

lemma fill_addr_6: "fill_addr 6 v d = Eth_addr v v v v v v"
  by (cases d) (simp add: fill_addr_def upt_rec)

text \<open>
  The request frame on an interface with six-octet addresses, for any content of the fresh
  buffer: every field is fixed by the interface, the target and \<open>srcaddr\<close>.
\<close>

lemma arp_request_hdr_6:
  assumes "hwaddr_len netif = 6"
  shows "arp_request_hdr srcaddr netif ip hdr0 =
     \<lparr>ethhdr = \<lparr>dest = ethbroadcast, src = srcaddr, type = htons ETHTYPE_ARP\<rparr>,
      hwtype = htons HWTYPE_ETHERNET, proto = htons ETHTYPE_IP,
      hwlen_protolen = htons 0x0604, opcode = htons ARP_REQUEST,
      shwaddr = srcaddr, sipaddr = ip_addr netif,
      dhwaddr = Eth_addr 0 0 0 0 0 0, dipaddr = ip\<rparr>"
proof -
  have "drop_bit 8 ((ntohs (hwlen_protolen hdr0) AND 0xff) OR push_bit 8 (6 :: u16_t)) = 6"
    unfolding mask8
    by (rule bit_word_eqI) (auto simp add: bit_simps)
  then show ?thesis
    using assms
    by (simp add: arp_request_hdr_def Let_def fill_addr_6 copy_addr_6 ethbroadcast_def
        ARPH_PROTOLEN_SET_def ARPH_HWLEN_SET_def ARPH_HWLEN_def ARPH_PROTOLEN_def
        ntohs_htons sizeof_ip_addr_def)
qed


lemma map_ctime_update:
  "ctime e = ctime (xs ! k) \<Longrightarrow> map ctime (xs[k := e]) = map ctime xs"
proof (cases "k < length xs")
  case True
  assume "ctime e = ctime (xs ! k)"
  with True show ?thesis by (simp add: map_update list_eq_iff_nth_eq nth_list_update)
next
  case False
  then have "xs[k := e] = xs" by (simp add: list_update_beyond)
  then show ?thesis by simp
qed

lemma find_arp_entry_ctime:
  "map ctime (arp_table (snd (find_arp_entry w))) = map ctime (arp_table w)"
  by (simp add: find_arp_entry_def pbuf_free_def map_ctime_update split: sum.splits)

lemma locate_entry_ctime:
  "map ctime (arp_table (snd (locate_entry ip w))) = map ctime (arp_table w)"
proof (cases "find_arp_entry w")
  case (Pair r w')
  with find_arp_entry_ctime [of w] have "map ctime (arp_table w') = map ctime (arp_table w)"
    by simp
  with Pair show ?thesis
    by (simp add: locate_entry_def Let_def map_ctime_update split: sum.splits)
qed

lemma send_request_table: "arp_table (snd (send_request srcaddr mem netif ip w)) = arp_table w"
  by (simp add: send_request_def pbuf_free_def call_linkoutput_def Let_def split: option.splits)

lemma handle_packet_ctime:
  "map ctime (arp_table (snd (handle_packet mem netif q i r w))) = map ctime (arp_table w)"
  by (simp add: handle_packet_def call_linkoutput_def Let_def map_ctime_update
      split: option.splits)

text \<open>No path of \<open>etharp_query\<close> writes \<open>ctime\<close>: every slot keeps its age.\<close>

lemma etharp_query_ctime:
  "map ctime (arp_table (snd (etharp_query srcaddr mem netif ip q w))) = map ctime (arp_table w)"
proof -
  obtain r w1 where a: "send_request srcaddr mem netif ip w = (r, w1)" by (cases "send_request srcaddr mem netif ip w")
  obtain l w2 where b: "locate_entry ip w1 = (l, w2)" by (cases "locate_entry ip w1")
  have 1: "arp_table w1 = arp_table w" using send_request_table [of srcaddr mem netif ip w] a by simp
  have 2: "map ctime (arp_table w2) = map ctime (arp_table w1)"
    using locate_entry_ctime [of ip w1] b by simp
  show ?thesis
    using a b 1 2 by (cases l) (simp_all add: etharp_query_def handle_packet_ctime)
qed

text \<open>
  A pending slot whose queue is \<open>NULL\<close> still has a \<open>NULL\<close> queue after the packet step,
  whatever \<open>pbuf_take\<close> returns.
\<close>

lemma handle_packet_null_queue:
  assumes "state (arp_table w ! i) = ETHARP_STATE_PENDING" "p_queue (arp_table w ! i) = []"
  shows "p_queue (arp_table (snd (handle_packet mem netif q i r w)) ! i) = []"
proof (cases "i < length (arp_table w)")
  case True
  with assms show ?thesis
    by (simp add: handle_packet_def pbuf_queue_def split: option.splits)
next
  case False
  then have "\<And>e. (arp_table w)[i := e] = arp_table w" by (simp add: list_update_beyond)
  with assms show ?thesis
    by (simp add: handle_packet_def pbuf_queue_def call_linkoutput_def split: option.splits)
qed

text \<open>
  The broadcast and multicast end of \<open>etharp_output\<close>, for any interface, destination and
  buffer: the frame is sent and the buffer is then freed.
\<close>

lemma output_send_events:
  "events (snd (output_send netif d b w)) =
     events w @ [LinkOutput (fill_ethhdr (hwaddr_len netif) d (hwaddr netif) ETHTYPE_IP b),
                 PbufFree (ref b)]"
  by (simp add: output_send_def Let_def pbuf_free_def call_linkoutput_def fill_ethhdr_def)

text \<open>
  Claim C1 at a concrete call: a datagram for 255.255.255.255, header growth succeeding.
  \<open>etharp_output\<close> hands the frame to \<open>linkoutput\<close> and then passes the same buffer to
  \<open>pbuf_free\<close> (line 596, under the comment "never reached"); the unicast path does the
  same after \<open>etharp_query\<close> returns.
\<close>

theorem etharp_output_frees_after_handoff:
  "pbuf_header scenario_mem ip_pkt sizeof_eth_hdr = Some (ip_pkt\<lparr>tot_len := 34\<rparr>) \<and>
   fst (etharp_output (hwaddr scenario_netif) scenario_mem scenario_netif 0xFFFFFFFF ip_pkt
          empty_cache) = ERR_OK \<and>
   events (snd (etharp_output (hwaddr scenario_netif) scenario_mem scenario_netif 0xFFFFFFFF
                  ip_pkt empty_cache)) =
     [LinkOutput \<lparr>ref = 7, tot_len = 34, payload = blank_hdr
         \<lparr>ethhdr := \<lparr>dest = ethbroadcast, src = Eth_addr 2 0 0 0 0 2, type = htons ETHTYPE_IP\<rparr>\<rparr>\<rparr>,
      PbufFree 7] \<and>
   fst (etharp_output (hwaddr scenario_netif) scenario_mem scenario_netif 0x0A000006 ip_pkt
          empty_cache) = ERR_OK \<and>
   events (snd (etharp_output (hwaddr scenario_netif) scenario_mem scenario_netif 0x0A000006
                  ip_pkt empty_cache)) =
     events (snd (etharp_query (hwaddr scenario_netif) scenario_mem scenario_netif 0x0A000006
                    (Some (ip_pkt\<lparr>tot_len := 34\<rparr>)) empty_cache)) @ [PbufFree 7]"
  by code_simp

text \<open>
  Claim C3 at a concrete call: from the initialised cache, a query for 10.0.0.6 with a
  datagram whose \<open>pbuf_take\<close> succeeds. The new slot 0 is pending and its queue is still
  \<open>NULL\<close> on return, directly and through \<open>etharp_output\<close>: \<open>pbuf_queue\<close> was given the
  slot's \<open>NULL\<close> pointer by value.
\<close>

theorem etharp_query_does_not_queue:
  "pbuf_take scenario_mem ip_pkt = Some ip_pkt \<and>
   fst (etharp_query (hwaddr scenario_netif) scenario_mem scenario_netif 0x0A000006
          (Some ip_pkt) empty_cache) = ERR_OK \<and>
   arp_table (snd (etharp_query (hwaddr scenario_netif) scenario_mem scenario_netif 0x0A000006
                     (Some ip_pkt) empty_cache)) ! 0 =
     \<lparr>ipaddr = 0x0A000006, ethaddr = Eth_addr 0 0 0 0 0 0,
      state = ETHARP_STATE_PENDING, p_queue = [], ctime = 0\<rparr> \<and>
   arp_table (snd (etharp_output (hwaddr scenario_netif) scenario_mem scenario_netif 0x0A000006
                     ip_pkt empty_cache)) ! 0 =
     \<lparr>ipaddr = 0x0A000006, ethaddr = Eth_addr 0 0 0 0 0 0,
      state = ETHARP_STATE_PENDING, p_queue = [], ctime = 0\<rparr>"
  by code_simp

text \<open>
  Claim C4 at a concrete call: the request carries the octets of \<open>srcaddr\<close> as sender
  hardware address and Ethernet source, whatever \<open>netif->hwaddr\<close> is. Here \<open>srcaddr\<close>
  holds de:ad:be:ef:00:01 and the interface address is 02:00:00:00:00:02.
\<close>

theorem etharp_query_request_srcaddr:
  "hwaddr scenario_netif = Eth_addr 2 0 0 0 0 2 \<and>
   events (snd (etharp_query (Eth_addr 0xde 0xad 0xbe 0xef 0 1) scenario_mem scenario_netif
                  0x0A000006 None empty_cache)) =
     [LinkOutput \<lparr>ref = 100, tot_len = 42,
        payload = \<lparr>ethhdr = \<lparr>dest = ethbroadcast, src = Eth_addr 0xde 0xad 0xbe 0xef 0 1,
                             type = htons ETHTYPE_ARP\<rparr>,
                   hwtype = htons HWTYPE_ETHERNET, proto = htons ETHTYPE_IP,
                   hwlen_protolen = htons 0x0604, opcode = htons ARP_REQUEST,
                   shwaddr = Eth_addr 0xde 0xad 0xbe 0xef 0 1, sipaddr = 0x0A000002,
                   dhwaddr = Eth_addr 0 0 0 0 0 0, dipaddr = 0x0A000006\<rparr>\<rparr>,
      PbufFree 100]"
  by code_simp

text \<open>
  Claim C7 at a concrete call: after five ticks the empty slot 0 has age 5, and the pending
  entry that \<open>etharp_query\<close> then creates in it has age 5, not 0.
\<close>

theorem etharp_query_keeps_age:
  "arp_table ((etharp_tmr ^^ 5) empty_cache) ! 0 =
     \<lparr>ipaddr = 0, ethaddr = Eth_addr 0 0 0 0 0 0, state = ETHARP_STATE_EMPTY,
      p_queue = [], ctime = 5\<rparr> \<and>
   arp_table (snd (etharp_query (hwaddr scenario_netif) scenario_mem scenario_netif 0x0A000006
                     None ((etharp_tmr ^^ 5) empty_cache))) ! 0 =
     \<lparr>ipaddr = 0x0A000006, ethaddr = Eth_addr 0 0 0 0 0 0, state = ETHARP_STATE_PENDING,
      p_queue = [], ctime = 5\<rparr>"
  by code_simp

text \<open>
  Claim C8 at a concrete call: \<open>etharp_query\<close> for 0.0.0.0 on the initialised cache
  makes slot 0 a pending entry whose address is 0.0.0.0.
\<close>

theorem etharp_query_inserts_zero_address:
  "fst (etharp_query (hwaddr scenario_netif) scenario_mem scenario_netif 0 None empty_cache) =
     ERR_OK \<and>
   arp_table (snd (etharp_query (hwaddr scenario_netif) scenario_mem scenario_netif 0 None
                     empty_cache)) ! 0 =
     \<lparr>ipaddr = 0, ethaddr = Eth_addr 0 0 0 0 0 0, state = ETHARP_STATE_PENDING,
      p_queue = [], ctime = 0\<rparr>"
  by code_simp

end
